theory Spec2Isabelle
  imports Main "HOL-Library.AList"
begin

section \<open>The JSON document and the JavaScript operations the store applies to it\<close>

text \<open>
  The store (class \<open>DataBase\<close> of \<open>src/Manager/JSON/JSON.ts\<close>) keeps one JSON document
  in a file. Every method reads the whole file with \<open>JSON.parse\<close>, walks or patches the
  parsed value, and the mutating methods write it back with \<open>JSON.stringify\<close>.

  A parsed document is a tree: \<open>JSON.parse\<close> never yields \<open>undefined\<close>, a function, a
  shared or a cyclic value. Objects are association lists (\<open>map_of\<close> reads a key, a new
  key is appended). Numbers are modelled as integers: the claims verified below are about
  which branch a method takes, not about rounding, and integer arithmetic is exact on the
  doubles it covers. A string is the list of its code units.
\<close>

datatype json =
    JNull
  | JBool bool
  | JNum int
  | JStr string
  | JArr "json list"
  | JObj "(string \<times> json) list"

text \<open>
  What a property read \<open>x[p]\<close> can yield: \<open>undefined\<close>, a value of the document, or a
  member of a built-in prototype (a method, or the prototype object itself under the
  name \<open>__proto__\<close>).
\<close>

datatype jsval =
    Undefined
  | Val json
  | Function
  | ObjectPrototype
  | ArrayPrototype

datatype js_type = T_undefined | T_object | T_boolean | T_number | T_string | T_function

fun typeof_json :: "json \<Rightarrow> js_type" where
  "typeof_json JNull = T_object"
| "typeof_json (JBool b) = T_boolean"
| "typeof_json (JNum n) = T_number"
| "typeof_json (JStr s) = T_string"
| "typeof_json (JArr xs) = T_object"
| "typeof_json (JObj kvs) = T_object"

fun typeof :: "jsval \<Rightarrow> js_type" where
  "typeof Undefined = T_undefined"
| "typeof (Val j) = typeof_json j"
| "typeof Function = T_function"
| "typeof ObjectPrototype = T_object"
| "typeof ArrayPrototype = T_object"

text \<open>Truthiness, as \<open>!x\<close> and \<open>if (x)\<close> test it.\<close>

fun truthy_json :: "json \<Rightarrow> bool" where
  "truthy_json JNull = False"
| "truthy_json (JBool b) = b"
| "truthy_json (JNum n) = (n \<noteq> 0)"
| "truthy_json (JStr s) = (s \<noteq> [])"
| "truthy_json (JArr xs) = True"
| "truthy_json (JObj kvs) = True"

fun truthy :: "jsval \<Rightarrow> bool" where
  "truthy Undefined = False"
| "truthy (Val j) = truthy_json j"
| "truthy Function = True"
| "truthy ObjectPrototype = True"
| "truthy ArrayPrototype = True"

text \<open>\<open>Array.isArray\<close>; \<open>Array.prototype\<close> is itself an array.\<close>

fun is_array :: "jsval \<Rightarrow> bool" where
  "is_array (Val (JArr xs)) = True"
| "is_array ArrayPrototype = True"
| "is_array v = False"

subsection \<open>Errors and outcomes\<close>

text \<open>
  The messages of \<open>DatabaseError\<close>, under the names the specification gives them; the two
  messages "Cannot push to a non-array value" and "Cannot pull from a non-array value"
  are both \<open>NotAnArray\<close> there and are kept apart here.
\<close>

datatype db_error =
    InvalidKey
  | InvalidKeyType
  | InvalidValueType
  | CannotCreateProperty string js_type
  | NonNumericTarget string
  | CannotPush string
  | CannotPull string

datatype error = DatabaseError db_error | TypeError | RangeError

text \<open>
  A call returns, throws, or leaves the model: \<open>Unmodelled\<close> marks the few steps whose
  effect is not a function of the document (a walk that enters a built-in prototype
  object and writes there, the \<open>ToNumber\<close> conversion of a non-number assigned to an
  array's \<open>length\<close>, a read on a primitive of a name that is not its own, a key that
  \<open>split\<close> cannot produce). The model leaves the store as it was at such a step; the
  theorems about what a writing method returns or writes speak of calls that return or
  throw.
\<close>

datatype 'a outcome = Returns 'a | Throws error | Unmodelled

fun bind :: "'a outcome \<Rightarrow> ('a \<Rightarrow> 'b outcome) \<Rightarrow> 'b outcome" where
  "bind (Returns x) f = f x"
| "bind (Throws e) f = Throws e"
| "bind Unmodelled f = Unmodelled"

subsection \<open>Own properties\<close>

definition decimal_digits :: "(char \<times> nat) list" where
  "decimal_digits =
    [(CHR ''0'', 0), (CHR ''1'', 1), (CHR ''2'', 2), (CHR ''3'', 3), (CHR ''4'', 4),
     (CHR ''5'', 5), (CHR ''6'', 6), (CHR ''7'', 7), (CHR ''8'', 8), (CHR ''9'', 9)]"

fun digits_value :: "nat \<Rightarrow> string \<Rightarrow> nat option" where
  "digits_value acc [] = Some acc"
| "digits_value acc (c # cs) =
    (case map_of decimal_digits c of
       None \<Rightarrow> None
     | Some d \<Rightarrow> digits_value (10 * acc + d) cs)"

text \<open>
  A property name is an array index when it is the canonical decimal form of an integer
  below \<open>2^32 - 1\<close>: digits only, no leading zero.
\<close>

definition array_index :: "string \<Rightarrow> nat option" where
  "array_index p =
    (case p of
       [] \<Rightarrow> None
     | c # cs \<Rightarrow>
        if c = CHR ''0'' \<and> cs \<noteq> [] then None
        else (case digits_value 0 p of
                None \<Rightarrow> None
              | Some n \<Rightarrow> if n < 4294967295 then Some n else None))"

text \<open>
  The own properties of a parsed value: the keys of an object; the indices and
  \<open>length\<close> of an array and of a string; none on a number or a boolean.
\<close>

fun own_value :: "json \<Rightarrow> string \<Rightarrow> json option" where
  "own_value (JObj kvs) p = map_of kvs p"
| "own_value (JArr xs) p =
    (case array_index p of
       Some i \<Rightarrow> if i < length xs then Some (xs ! i) else None
     | None \<Rightarrow> if p = ''length'' then Some (JNum (int (length xs))) else None)"
| "own_value (JStr s) p =
    (case array_index p of
       Some i \<Rightarrow> if i < length s then Some (JStr [s ! i]) else None
     | None \<Rightarrow> if p = ''length'' then Some (JNum (int (length s))) else None)"
| "own_value v p = None"

text \<open>
  The call \<open>x.hasOwnProperty(p)\<close>. It throws a \<open>TypeError\<close> on \<open>null\<close>, and on an object
  that has a key \<open>hasOwnProperty\<close> of its own: the call then finds that JSON value, which
  is not a function, instead of the method of \<open>Object.prototype\<close>.
\<close>

fun hasOwnProperty :: "json \<Rightarrow> string \<Rightarrow> bool outcome" where
  "hasOwnProperty JNull p = Throws TypeError"
| "hasOwnProperty (JObj kvs) p =
    (if map_of kvs ''hasOwnProperty'' \<noteq> None then Throws TypeError
     else Returns (map_of kvs p \<noteq> None))"
| "hasOwnProperty v p = Returns (own_value v p \<noteq> None)"

subsection \<open>Property reads, assignments and deletions\<close>

text \<open>
  The string-named members of \<open>Object.prototype\<close> and of \<open>Array.prototype\<close>
  (ECMAScript 2023), all methods but \<open>__proto__\<close>.
\<close>

definition object_prototype_methods :: "string list" where
  "object_prototype_methods =
    [''constructor'', ''hasOwnProperty'', ''isPrototypeOf'', ''propertyIsEnumerable'',
     ''toLocaleString'', ''toString'', ''valueOf'', ''__defineGetter__'',
     ''__defineSetter__'', ''__lookupGetter__'', ''__lookupSetter__'']"

definition array_prototype_methods :: "string list" where
  "array_prototype_methods =
    [''at'', ''concat'', ''copyWithin'', ''entries'', ''every'', ''fill'', ''filter'',
     ''find'', ''findIndex'', ''findLast'', ''findLastIndex'', ''flat'', ''flatMap'',
     ''forEach'', ''includes'', ''indexOf'', ''join'', ''keys'', ''lastIndexOf'', ''map'',
     ''pop'', ''push'', ''reduce'', ''reduceRight'', ''reverse'', ''shift'', ''slice'',
     ''some'', ''sort'', ''splice'', ''toReversed'', ''toSorted'', ''toSpliced'',
     ''unshift'', ''values'', ''with'']"

text \<open>The read \<open>x[p]\<close>: an own property first, then the prototype chain.\<close>

fun js_get :: "json \<Rightarrow> string \<Rightarrow> jsval outcome" where
  "js_get JNull p = Throws TypeError"
| "js_get (JObj kvs) p =
    (case map_of kvs p of
       Some v \<Rightarrow> Returns (Val v)
     | None \<Rightarrow>
        if p = ''__proto__'' then Returns ObjectPrototype
        else if p \<in> set object_prototype_methods then Returns Function
        else Returns Undefined)"
| "js_get (JArr xs) p =
    (case own_value (JArr xs) p of
       Some v \<Rightarrow> Returns (Val v)
     | None \<Rightarrow>
        if p = ''__proto__'' then Returns ArrayPrototype
        else if p \<in> set array_prototype_methods \<or> p \<in> set object_prototype_methods
        then Returns Function
        else Returns Undefined)"
| "js_get v p =
    (case own_value v p of Some w \<Rightarrow> Returns (Val w) | None \<Rightarrow> Unmodelled)"

text \<open>
  The assignment \<open>x[p] = v\<close> (strict mode: the file is a module). The result is \<open>x\<close> as
  \<open>JSON.stringify\<close> writes it afterwards: a hole of an array is written as \<open>null\<close>, and
  a property of an array that is not an index is not written at all. An assignment to
  \<open>__proto__\<close>, where that is not an own key, runs the setter of \<open>Object.prototype\<close>:
  it makes no own property (an object or \<open>null\<close> becomes the prototype of \<open>x\<close>, any other
  value is ignored), so \<open>x\<close> is written as it was.
\<close>

fun js_assign :: "json \<Rightarrow> string \<Rightarrow> json \<Rightarrow> json outcome" where
  "js_assign (JObj kvs) p v =
    (if p = ''__proto__'' \<and> map_of kvs p = None then Returns (JObj kvs)
     else Returns (JObj (AList.update p v kvs)))"
| "js_assign (JArr xs) p v =
    (case array_index p of
       Some i \<Rightarrow>
        Returns (JArr (if i < length xs then xs[i := v]
                       else xs @ replicate (i - length xs) JNull @ [v]))
     | None \<Rightarrow>
        if p = ''length'' then
          (case v of
             JNum n \<Rightarrow>
              if 0 \<le> n \<and> n < 4294967296
              then Returns (JArr (take (nat n) xs @ replicate (nat n - length xs) JNull))
              else Throws RangeError
           | _ \<Rightarrow> Unmodelled)
        else Returns (JArr xs))"
| "js_assign v p w = Throws TypeError"

text \<open>
  The statement \<open>delete x[p]\<close> for an own property \<open>p\<close> (strict mode). Deleting an array
  element leaves a hole, written as \<open>null\<close>; \<open>length\<close> and the indices of a string
  cannot be deleted.
\<close>

fun js_delete :: "json \<Rightarrow> string \<Rightarrow> json outcome" where
  "js_delete (JObj kvs) p = Returns (JObj (AList.delete p kvs))"
| "js_delete (JArr xs) p =
    (case array_index p of
       Some i \<Rightarrow> Returns (JArr (if i < length xs then xs[i := JNull] else xs))
     | None \<Rightarrow> if p = ''length'' then Throws TypeError else Returns (JArr xs))"
| "js_delete (JStr s) p =
    (if own_value (JStr s) p \<noteq> None then Throws TypeError else Returns (JStr s))"
| "js_delete JNull p = Throws TypeError"
| "js_delete v p = Returns v"

text \<open>
  A child that was mutated in place, seen from its parent: the traversals keep a
  reference to the child, the model puts the new child back under its name.
\<close>

fun replace_own :: "json \<Rightarrow> string \<Rightarrow> json \<Rightarrow> json" where
  "replace_own (JObj kvs) p c = JObj (AList.update p c kvs)"
| "replace_own (JArr xs) p c =
    (case array_index p of
       Some i \<Rightarrow> JArr (if i < length xs then xs[i := c] else xs)
     | None \<Rightarrow> JArr xs)"
| "replace_own v p c = v"

subsection \<open>\<open>String.prototype.split\<close> with a string separator\<close>

text \<open>
  With the empty separator the key is split into its code units; otherwise at every
  occurrence of the separator, found from the left without overlap.
\<close>

function split_from :: "string \<Rightarrow> string \<Rightarrow> string \<Rightarrow> string list" where
  "split_from sep cur [] = [cur]"
| "split_from sep cur (c # cs) =
    (if sep \<noteq> [] \<and> take (length sep) (c # cs) = sep
     then cur # split_from sep [] (drop (length sep) (c # cs))
     else split_from sep (cur @ [c]) cs)"
  by pat_completeness auto
termination
  by (relation "measure (\<lambda>(sep, cur, s). length s)") auto

definition js_split :: "string \<Rightarrow> string \<Rightarrow> string list" where
  "js_split key sep = (if sep = [] then map (\<lambda>c. [c]) key else split_from sep [] key)"

section \<open>The store\<close>

text \<open>
  The private fields of a \<open>DataBase\<close> instance, and the content of its file. The file is
  empty or holds one JSON text; \<open>disk\<close> is that text as \<open>JSON.parse\<close> reads it.
  \<open>JSON.stringify\<close> followed by \<open>JSON.parse\<close> gives a \<open>json\<close> value back as it was.
\<close>

datatype file_content = EmptyFile | Content json

record store =
  fileName :: string
  nestedEnabled :: bool
  separator :: string
  disk :: file_content

text \<open>\<open>fileContent ? JSON.parse(fileContent) : {}\<close>\<close>

definition read_file :: "store \<Rightarrow> json" where
  "read_file st = (case disk st of EmptyFile \<Rightarrow> JObj [] | Content j \<Rightarrow> j)"

text \<open>\<open>fs.writeFileSync(this.#fileName, JSON.stringify(file, null, 2))\<close>\<close>

definition write_file :: "store \<Rightarrow> json \<Rightarrow> store" where
  "write_file st file = st\<lparr>disk := Content file\<rparr>"

text \<open>A parameter with a default: the instance's field unless the caller passes one.\<close>

definition nested_arg :: "store \<Rightarrow> bool option \<Rightarrow> bool" where
  "nested_arg st arg = (case arg of None \<Rightarrow> nestedEnabled st | Some b \<Rightarrow> b)"

definition separator_arg :: "store \<Rightarrow> string option \<Rightarrow> string" where
  "separator_arg st arg = (case arg of None \<Rightarrow> separator st | Some s \<Rightarrow> s)"

text \<open>
  The two checks every keyed method starts with. The key is any JSON value, as a
  JavaScript caller can pass one; only a non-empty string passes.
\<close>

definition check_key :: "json \<Rightarrow> string outcome" where
  "check_key key =
    (if \<not> truthy_json key then Throws (DatabaseError InvalidKey)
     else (case key of
             JStr k \<Rightarrow> Returns k
           | _ \<Rightarrow> Throws (DatabaseError InvalidKeyType)))"

text \<open>What a mutating method leaves behind: the file is written only when it returns.\<close>

fun finish :: "store \<Rightarrow> json outcome \<Rightarrow> unit outcome \<times> store" where
  "finish st (Returns file) = (Returns (), write_file st file)"
| "finish st (Throws e) = (Throws e, st)"
| "finish st Unmodelled = (Unmodelled, st)"

subsection \<open>set\<close>

text \<open>
  The loop of \<open>set\<close> over the parts before the last: a falsy \<open>currentObject[part]\<close>
  (absent, \<open>null\<close>, \<open>0\<close>, \<open>""\<close>, \<open>false\<close>) is replaced by an empty object, a truthy one
  that is not of type object throws, and the walk goes on in \<open>currentObject[part]\<close>.
  The last part is assigned the value.
\<close>

fun set_path :: "json \<Rightarrow> string list \<Rightarrow> json \<Rightarrow> json outcome" where
  "set_path currentObject [] v = Unmodelled"
| "set_path currentObject [lastPart] v = js_assign currentObject lastPart v"
| "set_path currentObject (part # rest) v =
    bind (js_get currentObject part) (\<lambda>r.
      if \<not> truthy r then
        bind (js_assign currentObject part (JObj [])) (\<lambda>_.
        bind (set_path (JObj []) rest v) (\<lambda>child.
        js_assign currentObject part child))
      else if typeof r \<noteq> T_object
      then Throws (DatabaseError (CannotCreateProperty part (typeof r)))
      else (case r of
              Val child \<Rightarrow>
                bind (set_path child rest v) (\<lambda>child'.
                Returns (replace_own currentObject part child'))
            | _ \<Rightarrow> Unmodelled))"

definition set_op ::
  "store \<Rightarrow> json \<Rightarrow> json \<Rightarrow> bool option \<Rightarrow> string option \<Rightarrow> unit outcome \<times> store" where
  "set_op st key v nested sep =
    finish st
      (bind (check_key key) (\<lambda>k.
         if nested_arg st nested
         then set_path (read_file st) (js_split k (separator_arg st sep)) v
         else js_assign (read_file st) k v))"

subsection \<open>get, fetch, has\<close>

text \<open>The loop of \<open>get\<close> over all parts: a part that is not an own property ends it.\<close>

fun get_path :: "json \<Rightarrow> string list \<Rightarrow> jsval outcome" where
  "get_path currentValue [] = Returns (Val currentValue)"
| "get_path currentValue (part # rest) =
    bind (hasOwnProperty currentValue part) (\<lambda>h.
      if \<not> h then Returns Undefined
      else (case own_value currentValue part of
              Some child \<Rightarrow> get_path child rest
            | None \<Rightarrow> Unmodelled))"

definition get ::
  "store \<Rightarrow> json \<Rightarrow> bool option \<Rightarrow> string option \<Rightarrow> jsval outcome \<times> store" where
  "get st key nested sep =
    (bind (check_key key) (\<lambda>k.
       if nested_arg st nested
       then get_path (read_file st) (js_split k (separator_arg st sep))
       else js_get (read_file st) k),
     st)"

definition fetch ::
  "store \<Rightarrow> json \<Rightarrow> bool option \<Rightarrow> string option \<Rightarrow> jsval outcome \<times> store" where
  "fetch st key nested sep =
    (case check_key key of
       Returns k \<Rightarrow> get st key (Some (nested_arg st nested)) (Some (separator_arg st sep))
     | Throws e \<Rightarrow> (Throws e, st)
     | Unmodelled \<Rightarrow> (Unmodelled, st))"

definition has ::
  "store \<Rightarrow> json \<Rightarrow> bool option \<Rightarrow> string option \<Rightarrow> bool outcome \<times> store" where
  "has st key nested sep =
    (case check_key key of
       Returns k \<Rightarrow>
        (case get st key (Some (nested_arg st nested)) (Some (separator_arg st sep)) of
           (r, st') \<Rightarrow> (bind r (\<lambda>v. Returns (truthy v)), st'))
     | Throws e \<Rightarrow> (Throws e, st)
     | Unmodelled \<Rightarrow> (Unmodelled, st))"

subsection \<open>delete\<close>

text \<open>
  The result is \<open>None\<close> where \<open>delete\<close> returns \<open>false\<close> without writing, and the patched
  value where it deletes.
\<close>

fun delete_path :: "json \<Rightarrow> string list \<Rightarrow> json option outcome" where
  "delete_path currentValue [] = Unmodelled"
| "delete_path currentValue [lastPart] =
    bind (hasOwnProperty currentValue lastPart) (\<lambda>h.
      if h then bind (js_delete currentValue lastPart) (\<lambda>c. Returns (Some c))
      else Returns None)"
| "delete_path currentValue (part # rest) =
    bind (hasOwnProperty currentValue part) (\<lambda>h.
      if \<not> h then Returns None
      else (case own_value currentValue part of
              Some child \<Rightarrow>
                bind (delete_path child rest) (\<lambda>r.
                Returns (map_option (replace_own currentValue part) r))
            | None \<Rightarrow> Unmodelled))"

fun finish_delete :: "store \<Rightarrow> json option outcome \<Rightarrow> bool outcome \<times> store" where
  "finish_delete st (Returns (Some file)) = (Returns True, write_file st file)"
| "finish_delete st (Returns None) = (Returns False, st)"
| "finish_delete st (Throws e) = (Throws e, st)"
| "finish_delete st Unmodelled = (Unmodelled, st)"

definition delete ::
  "store \<Rightarrow> json \<Rightarrow> bool option \<Rightarrow> string option \<Rightarrow> bool outcome \<times> store" where
  "delete st key nested sep =
    finish_delete st
      (bind (check_key key) (\<lambda>k.
         if nested_arg st nested
         then delete_path (read_file st) (js_split k (separator_arg st sep))
         else
           bind (hasOwnProperty (read_file st) k) (\<lambda>h.
             if h then bind (js_delete (read_file st) k) (\<lambda>c. Returns (Some c))
             else Returns None)))"

subsection \<open>add, subtract, push\<close>

text \<open>
  The loop that \<open>add\<close>, \<open>subtract\<close> and \<open>push\<close> each carry, word for word the same: a
  part that is not an own property is created as an empty object, an own property that
  is not of type object throws, and the walk goes on in \<open>currentObject[part]\<close>. What
  the method does at the last part is the parameter \<open>terminal\<close>.
\<close>

fun walk_create ::
  "(json \<Rightarrow> string \<Rightarrow> json outcome) \<Rightarrow> json \<Rightarrow> string list \<Rightarrow> json outcome" where
  "walk_create terminal currentObject [] = Unmodelled"
| "walk_create terminal currentObject [lastPart] = terminal currentObject lastPart"
| "walk_create terminal currentObject (part # rest) =
    bind (hasOwnProperty currentObject part) (\<lambda>h.
      if \<not> h then
        bind (js_assign currentObject part (JObj [])) (\<lambda>_.
        bind (walk_create terminal (JObj []) rest) (\<lambda>child.
        js_assign currentObject part child))
      else
        bind (js_get currentObject part) (\<lambda>r.
          if typeof r \<noteq> T_object
          then Throws (DatabaseError (CannotCreateProperty part (typeof r)))
          else (case r of
                  Val child \<Rightarrow>
                    bind (walk_create terminal child rest) (\<lambda>child'.
                    Returns (replace_own currentObject part child'))
                | _ \<Rightarrow> Unmodelled)))"

text \<open>
  \<open>typeof value !== 'number'\<close>: the third check of \<open>add\<close> and \<open>subtract\<close>, after the two
  of the key.
\<close>

definition check_number :: "json \<Rightarrow> string \<Rightarrow> (string \<times> int) outcome" where
  "check_number v k =
    (case v of
       JNum n \<Rightarrow> Returns (k, n)
     | _ \<Rightarrow> Throws (DatabaseError InvalidValueType))"

text \<open>
  The last part in nested mode: a falsy \<open>currentObject[lastPart]\<close> is set to the signed
  value, a number is incremented in place, anything else throws.
\<close>

definition add_last :: "string \<Rightarrow> int \<Rightarrow> json \<Rightarrow> string \<Rightarrow> json outcome" where
  "add_last key n currentObject lastPart =
    bind (js_get currentObject lastPart) (\<lambda>r.
      if \<not> truthy r then js_assign currentObject lastPart (JNum n)
      else (case r of
              Val (JNum m) \<Rightarrow> js_assign currentObject lastPart (JNum (m + n))
            | _ \<Rightarrow> Throws (DatabaseError (NonNumericTarget key))))"

text \<open>
  The branch without nesting: a key that is not an own property is set to the signed
  value, an own property that is not a number throws, a number is incremented.
\<close>

definition add_flat :: "string \<Rightarrow> int \<Rightarrow> json \<Rightarrow> json outcome" where
  "add_flat key n file =
    bind (hasOwnProperty file key) (\<lambda>h.
      if \<not> h then js_assign file key (JNum n)
      else
        bind (js_get file key) (\<lambda>r.
          (case r of
             Val (JNum m) \<Rightarrow> js_assign file key (JNum (m + n))
           | _ \<Rightarrow> Throws (DatabaseError (NonNumericTarget key)))))"

text \<open>
  \<open>add\<close> is declared \<open>async\<close> and has no \<open>await\<close>: its body runs to its end when it is
  called, and what it throws rejects the promise it returns.
\<close>

definition add ::
  "store \<Rightarrow> json \<Rightarrow> json \<Rightarrow> bool option \<Rightarrow> string option \<Rightarrow> unit outcome \<times> store" where
  "add st key v nested sep =
    finish st
      (bind (check_key key) (\<lambda>k.
       bind (check_number v k) (\<lambda>(k, n).
         if nested_arg st nested
         then walk_create (add_last k n) (read_file st) (js_split k (separator_arg st sep))
         else add_flat k n (read_file st))))"

definition subtract_last :: "string \<Rightarrow> int \<Rightarrow> json \<Rightarrow> string \<Rightarrow> json outcome" where
  "subtract_last key n currentObject lastPart =
    bind (js_get currentObject lastPart) (\<lambda>r.
      if \<not> truthy r then js_assign currentObject lastPart (JNum (- n))
      else (case r of
              Val (JNum m) \<Rightarrow> js_assign currentObject lastPart (JNum (m - n))
            | _ \<Rightarrow> Throws (DatabaseError (NonNumericTarget key))))"

definition subtract_flat :: "string \<Rightarrow> int \<Rightarrow> json \<Rightarrow> json outcome" where
  "subtract_flat key n file =
    bind (hasOwnProperty file key) (\<lambda>h.
      if \<not> h then js_assign file key (JNum (- n))
      else
        bind (js_get file key) (\<lambda>r.
          (case r of
             Val (JNum m) \<Rightarrow> js_assign file key (JNum (m - n))
           | _ \<Rightarrow> Throws (DatabaseError (NonNumericTarget key)))))"

definition subtract ::
  "store \<Rightarrow> json \<Rightarrow> json \<Rightarrow> bool option \<Rightarrow> string option \<Rightarrow> unit outcome \<times> store" where
  "subtract st key v nested sep =
    finish st
      (bind (check_key key) (\<lambda>k.
       bind (check_number v k) (\<lambda>(k, n).
         if nested_arg st nested
         then walk_create (subtract_last k n) (read_file st)
                (js_split k (separator_arg st sep))
         else subtract_flat k n (read_file st))))"

text \<open>
  The last part of \<open>push\<close> in nested mode. A falsy \<open>currentObject[lastPart]\<close> is first
  assigned \<open>[]\<close>; the value is then pushed on the array at \<open>currentObject[lastPart]\<close>.
\<close>

definition push_last :: "string \<Rightarrow> json \<Rightarrow> json \<Rightarrow> string \<Rightarrow> json outcome" where
  "push_last key v currentObject lastPart =
    (if \<not> truthy_json currentObject then Throws (DatabaseError (CannotPush key))
     else if typeof_json currentObject \<noteq> T_object
     then Throws (DatabaseError (CannotPush key))
     else
       bind (js_get currentObject lastPart) (\<lambda>r.
         if \<not> truthy r then
           bind (js_assign currentObject lastPart (JArr [])) (\<lambda>_.
           js_assign currentObject lastPart (JArr ([] @ [v])))
         else if \<not> is_array r then Throws (DatabaseError (CannotPush key))
         else (case r of
                 Val (JArr xs) \<Rightarrow> Returns (replace_own currentObject lastPart (JArr (xs @ [v])))
               | _ \<Rightarrow> Unmodelled)))"

definition push_flat :: "string \<Rightarrow> json \<Rightarrow> json \<Rightarrow> json outcome" where
  "push_flat key v file =
    bind (hasOwnProperty file key) (\<lambda>h.
      if \<not> h then js_assign file key (JArr [v])
      else
        bind (js_get file key) (\<lambda>r.
          if \<not> is_array r then Throws (DatabaseError (CannotPush key))
          else (case r of
                  Val (JArr xs) \<Rightarrow> Returns (replace_own file key (JArr (xs @ [v])))
                | _ \<Rightarrow> Unmodelled)))"

definition push ::
  "store \<Rightarrow> json \<Rightarrow> json \<Rightarrow> bool option \<Rightarrow> string option \<Rightarrow> unit outcome \<times> store" where
  "push st key v nested sep =
    finish st
      (bind (check_key key) (\<lambda>k.
         if nested_arg st nested
         then walk_create (push_last k v) (read_file st) (js_split k (separator_arg st sep))
         else push_flat k v (read_file st)))"

subsection \<open>pull\<close>

text \<open>
  The second argument of \<open>pull\<close>: a callback \<open>(element, index, array)\<close>, taken as a pure
  predicate, or a value.
\<close>

datatype pull_arg = Callback "json \<Rightarrow> nat \<Rightarrow> json list \<Rightarrow> bool" | Value json

text \<open>
  \<open>element === value\<close> between an element of the parsed document and the caller's
  value: primitives are compared by value; an object or an array is equal only to
  itself, and the caller holds no reference into a document that was parsed in this call.
\<close>

fun strict_equals :: "json \<Rightarrow> json \<Rightarrow> bool" where
  "strict_equals JNull JNull = True"
| "strict_equals (JBool a) (JBool b) = (a = b)"
| "strict_equals (JNum a) (JNum b) = (a = b)"
| "strict_equals (JStr a) (JStr b) = (a = b)"
| "strict_equals x y = False"

fun same_as :: "pull_arg \<Rightarrow> json \<Rightarrow> bool" where
  "same_as (Callback f) element = False"
| "same_as (Value v) element = strict_equals element v"

fun first_index :: "('a \<Rightarrow> bool) \<Rightarrow> 'a list \<Rightarrow> nat option" where
  "first_index P [] = None"
| "first_index P (x # xs) = (if P x then Some 0 else map_option Suc (first_index P xs))"

text \<open>\<open>array.indexOf(callbackOrValue)\<close>: the first element strictly equal to the argument.\<close>

definition indexOf :: "json list \<Rightarrow> pull_arg \<Rightarrow> nat option" where
  "indexOf array arg = first_index (same_as arg) array"

text \<open>\<open>array.splice(index, 1)\<close>\<close>

definition splice1 :: "nat \<Rightarrow> 'a list \<Rightarrow> 'a list" where
  "splice1 index array = take index array @ drop (Suc index) array"

text \<open>The test of the \<open>reduce\<close> callback at one index.\<close>

fun selected :: "pull_arg \<Rightarrow> json list \<Rightarrow> nat \<Rightarrow> bool" where
  "selected (Callback f) array index = f (array ! index) index array"
| "selected (Value v) array index = strict_equals (array ! index) v"

text \<open>
  What \<open>pull\<close> does to the array it found: whether something was removed, and the array
  afterwards. With \<open>pullAll\<close> the selected indices are spliced out from the last to the
  first; without it the one index \<open>indexOf\<close> returns.
\<close>

definition pull_array :: "pull_arg \<Rightarrow> bool \<Rightarrow> json list \<Rightarrow> bool \<times> json list" where
  "pull_array arg pullAll array =
    (if pullAll then
       (let indexesToRemove = filter (selected arg array) [0..<length array]
        in if 0 < length indexesToRemove
           then (True, fold splice1 (rev indexesToRemove) array)
           else (False, array))
     else (case indexOf array arg of
             Some index \<Rightarrow> (True, splice1 index array)
           | None \<Rightarrow> (False, array)))"

text \<open>
  The last level of \<open>pull\<close>, which the source writes twice (in \<open>traverseAndPull\<close> at
  the last depth and in the branch without nesting): the part must be an own property
  holding an array. It returns the flag and the patched \<open>currentObject\<close>.
\<close>

definition pull_here ::
  "string \<Rightarrow> pull_arg \<Rightarrow> bool \<Rightarrow> json \<Rightarrow> string \<Rightarrow> (bool \<times> json) outcome" where
  "pull_here key arg pullAll currentObject part =
    bind (hasOwnProperty currentObject part) (\<lambda>h.
      if \<not> h then Throws (DatabaseError (CannotPull key))
      else
        bind (js_get currentObject part) (\<lambda>r.
          if \<not> is_array r then Throws (DatabaseError (CannotPull key))
          else (case r of
                  Val (JArr array) \<Rightarrow>
                    (case pull_array arg pullAll array of
                       (removed, array') \<Rightarrow>
                         Returns (removed, replace_own currentObject part (JArr array')))
                | _ \<Rightarrow> Unmodelled)))"

text \<open>
  The recursion \<open>traverseAndPull\<close> on the parts from \<open>depth\<close> on. Every frame that sees
  the flag set writes the same root document, so the writes are one write, done by
  \<open>finish_pull\<close>.
\<close>

fun traverseAndPull ::
  "string \<Rightarrow> pull_arg \<Rightarrow> bool \<Rightarrow> json \<Rightarrow> string list \<Rightarrow> (bool \<times> json) outcome" where
  "traverseAndPull key arg pullAll currentObject [] = Unmodelled"
| "traverseAndPull key arg pullAll currentObject [part] =
    pull_here key arg pullAll currentObject part"
| "traverseAndPull key arg pullAll currentObject (part # rest) =
    bind (hasOwnProperty currentObject part) (\<lambda>h.
      if \<not> h then Throws (DatabaseError (CannotPull key))
      else
        bind (js_get currentObject part) (\<lambda>r.
          if typeof r \<noteq> T_object then Throws (DatabaseError (CannotPull key))
          else (case r of
                  Val child \<Rightarrow>
                    bind (traverseAndPull key arg pullAll child rest) (\<lambda>(updated, child').
                    Returns (updated, replace_own currentObject part child'))
                | _ \<Rightarrow> Unmodelled)))"

fun finish_pull :: "store \<Rightarrow> (bool \<times> json) outcome \<Rightarrow> bool outcome \<times> store" where
  "finish_pull st (Returns (removed, file)) =
    (Returns removed, if removed then write_file st file else st)"
| "finish_pull st (Throws e) = (Throws e, st)"
| "finish_pull st Unmodelled = (Unmodelled, st)"

definition pull ::
  "store \<Rightarrow> json \<Rightarrow> pull_arg \<Rightarrow> bool option \<Rightarrow> bool option \<Rightarrow> string option
    \<Rightarrow> bool outcome \<times> store" where
  "pull st key callbackOrValue pullAll nested sep =
    finish_pull st
      (bind (check_key key) (\<lambda>k.
         if nested_arg st nested
         then traverseAndPull k callbackOrValue (case_option False id pullAll)
                (read_file st) (js_split k (separator_arg st sep))
         else pull_here k callbackOrValue (case_option False id pullAll)
                (read_file st) k))"

subsection \<open>all, reset\<close>

text \<open>
  \<open>all\<close> lists the top-level keys with their values, as pairs \<open>(ID, data)\<close>, in the order
  of the association list. It is modelled on a document whose root is an object.
\<close>

definition all :: "store \<Rightarrow> (string \<times> jsval) list outcome \<times> store" where
  "all st =
    ((case read_file st of
        JObj kvs \<Rightarrow>
          Returns (map (\<lambda>key. (key, case map_of kvs key of
                                      Some v \<Rightarrow> Val v
                                    | None \<Rightarrow> Undefined))
                       (map fst kvs))
      | _ \<Rightarrow> Unmodelled),
     st)"

definition reset :: "store \<Rightarrow> unit outcome \<times> store" where
  "reset st = (Returns (), write_file st (JObj []))"

subsection \<open>The public surface\<close>

text \<open>One call of a method, with its arguments, and what it returns to the caller.\<close>

datatype call =
    Set json json "bool option" "string option"
  | Get json "bool option" "string option"
  | Fetch json "bool option" "string option"
  | Delete json "bool option" "string option"
  | Has json "bool option" "string option"
  | Add json json "bool option" "string option"
  | Subtract json json "bool option" "string option"
  | Push json json "bool option" "string option"
  | Pull json pull_arg "bool option" "bool option" "string option"
  | All
  | Reset

datatype result =
    Nothing
  | Found jsval
  | Flag bool
  | Entries "(string \<times> jsval) list"

fun lift :: "('a \<Rightarrow> result) \<Rightarrow> 'a outcome \<times> store \<Rightarrow> result outcome \<times> store" where
  "lift f (r, st) = (bind r (\<lambda>x. Returns (f x)), st)"

fun run :: "store \<Rightarrow> call \<Rightarrow> result outcome \<times> store" where
  "run st (Set key v nested sep) = lift (\<lambda>_. Nothing) (set_op st key v nested sep)"
| "run st (Get key nested sep) = lift Found (get st key nested sep)"
| "run st (Fetch key nested sep) = lift Found (fetch st key nested sep)"
| "run st (Delete key nested sep) = lift Flag (delete st key nested sep)"
| "run st (Has key nested sep) = lift Flag (has st key nested sep)"
| "run st (Add key v nested sep) = lift (\<lambda>_. Nothing) (add st key v nested sep)"
| "run st (Subtract key v nested sep) = lift (\<lambda>_. Nothing) (subtract st key v nested sep)"
| "run st (Push key v nested sep) = lift (\<lambda>_. Nothing) (push st key v nested sep)"
| "run st (Pull key arg pullAll nested sep) = lift Flag (pull st key arg pullAll nested sep)"
| "run st All = lift Entries (all st)"
| "run st Reset = lift (\<lambda>_. Nothing) (reset st)"

text \<open>
  \<open>new DataBase()\<close> over a file that holds the document \<open>d\<close>: the constructor's
  defaults are the file name \<open>database.json\<close>, nested mode and the separator \<open>..\<close>;
  it leaves an existing file as it is.
\<close>

definition new_DataBase :: "json \<Rightarrow> store" where
  "new_DataBase d =
    \<lparr>fileName = ''database.json'', nestedEnabled = True, separator = ''..'',
     disk = Content d\<rparr>"

subsection \<open>The paths on which a value that was set can be read back\<close>

text \<open>
  The values \<open>set\<close> walks through on the parts of a key: the root, and under each part
  before the last the value it holds if that is truthy, a fresh empty object otherwise.
  \<open>mapping_path\<close> says that each of them is an object without a key \<open>hasOwnProperty\<close>
  of its own, that the last part is not \<open>hasOwnProperty\<close>, and that no part is
  \<open>__proto__\<close>.
\<close>

fun mapping_path :: "json \<Rightarrow> string list \<Rightarrow> bool" where
  "mapping_path (JObj kvs) [lastPart] =
    (map_of kvs ''hasOwnProperty'' = None \<and> lastPart \<noteq> ''hasOwnProperty'' \<and>
     lastPart \<noteq> ''__proto__'')"
| "mapping_path (JObj kvs) (part # rest) =
    (map_of kvs ''hasOwnProperty'' = None \<and> part \<noteq> ''__proto__'' \<and>
     (case map_of kvs part of
        Some child \<Rightarrow>
          if truthy_json child then mapping_path child rest
          else mapping_path (JObj []) rest
      | None \<Rightarrow> mapping_path (JObj []) rest))"
| "mapping_path v parts = False"

fun is_mapping :: "json \<Rightarrow> bool" where
  "is_mapping (JObj kvs) = True"
| "is_mapping v = False"

definition readable_back :: "store \<Rightarrow> string \<Rightarrow> bool option \<Rightarrow> string option \<Rightarrow> bool" where
  "readable_back st k nested sep =
    (if nested_arg st nested
     then mapping_path (read_file st) (js_split k (separator_arg st sep))
     else is_mapping (read_file st) \<and> k \<noteq> ''__proto__'')"

subsection \<open>Paths through mappings\<close>

text \<open>
  The mapping the walk of a method stands on after the parts \<open>pre\<close>: each part is an own
  key of the mapping before it, and no mapping on the way, the last one included, has a
  key \<open>hasOwnProperty\<close> of its own.
\<close>

fun standing :: "json \<Rightarrow> string list \<Rightarrow> (string \<times> json) list option" where
  "standing (JObj kvs) [] = (if map_of kvs ''hasOwnProperty'' = None then Some kvs else None)"
| "standing (JObj kvs) (p # ps) =
    (if map_of kvs ''hasOwnProperty'' = None
     then (case map_of kvs p of Some child \<Rightarrow> standing child ps | None \<Rightarrow> None)
     else None)"
| "standing v ps = None"

text \<open>The document with the value \<open>c\<close> put at the end of a path through mappings.\<close>

fun put_at :: "json \<Rightarrow> string list \<Rightarrow> json \<Rightarrow> json" where
  "put_at cur [] c = c"
| "put_at (JObj kvs) (p # ps) c =
    JObj (AList.update p
            (put_at (case map_of kvs p of Some child \<Rightarrow> child | None \<Rightarrow> JObj []) ps c) kvs)"
| "put_at v (p # ps) c = v"

text \<open>The store whose file holds an empty mapping at the end of the path.\<close>

definition with_mapping_at :: "store \<Rightarrow> string list \<Rightarrow> store" where
  "with_mapping_at st path = st\<lparr>disk := Content (put_at (read_file st) path (JObj []))\<rparr>"

text \<open>
  Two calls have the same effect: the same outcome, and the same store afterwards when
  they return.
\<close>

definition same_effect :: "unit outcome \<times> store \<Rightarrow> unit outcome \<times> store \<Rightarrow> bool" where
  "same_effect r r' =
    (fst r = fst r' \<and> (if fst r = Returns () then snd r = snd r' else True))"

section \<open>Properties\<close>

subsection \<open>Shared lemmas\<close>

lemmas eval_defs = new_DataBase_def get_def set_op_def fetch_def has_def delete_def add_def
  subtract_def push_def pull_def all_def reset_def check_key_def check_number_def nested_arg_def
  separator_arg_def read_file_def write_file_def js_split_def array_index_def
  decimal_digits_def add_last_def
  add_flat_def subtract_last_def subtract_flat_def push_last_def push_flat_def pull_here_def
  pull_array_def indexOf_def splice1_def object_prototype_methods_def array_prototype_methods_def

lemma finish_throws: "fst (finish st r) = Throws e \<Longrightarrow> snd (finish st r) = st"
  by (cases r) auto

lemma finish_delete_throws:
  "fst (finish_delete st r) = Throws e \<Longrightarrow> snd (finish_delete st r) = st"
  by (cases "(st, r)" rule: finish_delete.cases) auto

lemma finish_pull_throws:
  "fst (finish_pull st r) = Throws e \<Longrightarrow> snd (finish_pull st r) = st"
  by (cases "(st, r)" rule: finish_pull.cases) auto

lemma get_frame: "snd (get st key nested sep) = st"
  by (simp add: get_def)

lemma fetch_frame: "snd (fetch st key nested sep) = st"
  by (simp add: fetch_def get_frame split: outcome.splits)

lemma has_frame: "snd (has st key nested sep) = st"
  using get_frame [of st key "Some (nested_arg st nested)" "Some (separator_arg st sep)"]
  by (auto simp: has_def split: outcome.splits prod.splits)

lemma all_frame: "snd (all st) = st"
  by (simp add: all_def)

lemma lift_fst: "fst (lift f p) = bind (fst p) (\<lambda>x. Returns (f x))"
  by (cases p) simp

lemma lift_snd: "snd (lift f p) = snd p"
  by (cases p) simp

lemma bind_throws: "bind r (\<lambda>x. Returns (f x)) = Throws e \<Longrightarrow> r = Throws e"
  by (cases r) auto

lemma finish_config: "snd (finish st r) = st\<lparr>disk := disk (snd (finish st r))\<rparr>"
  by (cases r) (simp_all add: write_file_def)

lemma finish_delete_config:
  "snd (finish_delete st r) = st\<lparr>disk := disk (snd (finish_delete st r))\<rparr>"
  by (cases "(st, r)" rule: finish_delete.cases) (simp_all add: write_file_def)

lemma finish_pull_config:
  "snd (finish_pull st r) = st\<lparr>disk := disk (snd (finish_pull st r))\<rparr>"
  by (cases "(st, r)" rule: finish_pull.cases) (simp_all add: write_file_def)

text \<open>A call changes nothing of the store but the content of the file.\<close>

lemma run_config: "snd (run st c) = st\<lparr>disk := disk (snd (run st c))\<rparr>"
proof (cases c)
  case (Set key v nested sep)
  then show ?thesis using finish_config by (simp add: lift_snd set_op_def)
next
  case (Add key v nested sep)
  then show ?thesis using finish_config by (simp add: lift_snd add_def)
next
  case (Subtract key v nested sep)
  then show ?thesis using finish_config by (simp add: lift_snd subtract_def)
next
  case (Push key v nested sep)
  then show ?thesis using finish_config by (simp add: lift_snd push_def)
next
  case (Delete key nested sep)
  then show ?thesis using finish_delete_config by (simp add: lift_snd delete_def)
next
  case (Pull key arg pullAll nested sep)
  then show ?thesis using finish_pull_config by (simp add: lift_snd pull_def)
qed (simp_all add: lift_snd get_frame fetch_frame has_frame all_frame reset_def write_file_def)

text \<open>\<open>has\<close> is the truthiness of what \<open>get\<close> returns, and throws where \<open>get\<close> throws.\<close>

lemma has_get:
  "fst (has st key nested sep) = bind (fst (get st key nested sep)) (\<lambda>v. Returns (truthy v))"
  by (cases "check_key key")
     (simp_all add: has_def get_def nested_arg_def separator_arg_def split: prod.splits)

subsection \<open>set, then get\<close>

lemma bind_returns: "bind m f = Returns y \<longleftrightarrow> (\<exists>x. m = Returns x \<and> f x = Returns y)"
  by (cases m) auto

lemma hasOwnProperty_method: "''hasOwnProperty'' \<in> set object_prototype_methods"
  by (simp add: object_prototype_methods_def)

text \<open>
  \<open>split\<close> returns at least one part for a key that passed the checks, so the walks
  never meet the empty list of parts.
\<close>

lemma split_from_nonempty: "split_from sep cur s \<noteq> []"
  by (induction sep cur s rule: split_from.induct) auto

lemma js_split_nonempty: "k \<noteq> [] \<Longrightarrow> js_split k sep \<noteq> []"
  by (simp add: js_split_def split_from_nonempty)

text \<open>
  On a mapping path the walk of \<open>set\<close> rebuilds the document so that the walk of \<open>get\<close>
  over the same parts arrives at the value. Induction on the parts, the current value
  generalised.
\<close>

lemma set_path_get_path:
  "mapping_path cur parts \<Longrightarrow> set_path cur parts v = Returns cur' \<Longrightarrow>
   get_path cur' parts = Returns (Val v)"
proof (induction parts arbitrary: cur cur')
  case Nil
  then show ?case by (cases cur) simp_all
next
  case (Cons part rest)
  from Cons.prems(1) obtain kvs where cur: "cur = JObj kvs"
    by (cases cur) simp_all
  from Cons.prems(1) cur have own: "map_of kvs ''hasOwnProperty'' = None"
    by (cases rest) simp_all
  show ?case
  proof (cases rest)
    case Nil
    with Cons.prems cur own show ?thesis
      by (auto simp: update_conv' split: if_splits)
  next
    case (Cons q qs)
    have "\<exists>child start. cur' = JObj (AList.update part child kvs) \<and>
            set_path start rest v = Returns child \<and> mapping_path start rest \<and>
            part \<noteq> ''hasOwnProperty''"
    proof (cases "map_of kvs part")
      case None
      with Cons.prems cur \<open>rest = q # qs\<close> hasOwnProperty_method show ?thesis
        by (auto simp: bind_returns split: if_splits)
    next
      case (Some c)
      with own have "part \<noteq> ''hasOwnProperty''" by auto
      with Some Cons.prems cur \<open>rest = q # qs\<close> show ?thesis
        by (auto simp: bind_returns split: if_splits)
    qed
    then obtain child start where
      child: "cur' = JObj (AList.update part child kvs)" and
      sub: "set_path start rest v = Returns child" "mapping_path start rest" and
      part: "part \<noteq> ''hasOwnProperty''"
      by blast
    from sub(2) sub(1) have "get_path child rest = Returns (Val v)"
      by (rule Cons.IH)
    with child own part show ?thesis
      by (simp add: update_conv')
  qed
qed

text \<open>
  On a mapping path the walk of \<open>set\<close> never leaves the model: it returns, or it throws
  \<open>CannotCreateProperty\<close> at a part that names a method of \<open>Object.prototype\<close> or holds
  a truthy boolean, number or string.
\<close>

lemma set_path_modelled:
  "mapping_path cur parts \<Longrightarrow> set_path cur parts v \<noteq> Unmodelled"
proof (induction parts arbitrary: cur)
  case Nil
  then show ?case by (cases cur) simp_all
next
  case (Cons part rest)
  from Cons.prems obtain kvs where cur: "cur = JObj kvs"
    by (cases cur) simp_all
  show ?case
  proof (cases rest)
    case Nil
    with Cons.prems cur show ?thesis by simp
  next
    case (Cons q qs)
    with Cons.prems cur have part: "part \<noteq> ''__proto__''" by simp
    have fresh: "set_path (JObj []) rest v = Unmodelled \<Longrightarrow> mapping_path (JObj []) rest
                   \<Longrightarrow> False"
      using Cons.IH [of "JObj []"] by blast
    show ?thesis
    proof (cases "map_of kvs part")
      case None
      with Cons.prems cur \<open>rest = q # qs\<close> part fresh show ?thesis
        by (cases "set_path (JObj []) rest v") auto
    next
      case (Some c)
      show ?thesis
      proof (cases "truthy_json c")
        case False
        with Some Cons.prems cur \<open>rest = q # qs\<close> part fresh show ?thesis
          by (cases "set_path (JObj []) rest v") auto
      next
        case True
        with Some Cons.prems cur \<open>rest = q # qs\<close> have "mapping_path c rest"
          by simp
        then have "set_path c rest v \<noteq> Unmodelled"
          by (rule Cons.IH)
        with True Some cur \<open>rest = q # qs\<close> show ?thesis
          by (cases "set_path c rest v") auto
      qed
    qed
  qed
qed

text \<open>
  Claim C1: for every string key \<open>k\<close> and JSON value \<open>v\<close>, \<open>set(k, v)\<close> followed by
  \<open>get(k)\<close>, with the same nested flag and separator and on a document on which the
  traversal of \<open>k\<close>'s intermediate parts does not fail, returns a value equal to \<open>v\<close>.

  As stated the claim is false: \<open>set\<close> walks into an array as into an object
  (\<open>typeof [] === 'object'\<close>) and assigns the last part as a property of the array,
  which \<open>JSON.stringify\<close> does not write. On the document \<open>{"a": []}\<close>, \<open>set("a..b", 1)\<close>
  returns and \<open>get("a..b")\<close> then returns \<open>undefined\<close>.
\<close>

theorem set_then_get_array_counterexample:
  "fst (set_op (new_DataBase (JObj [(''a'', JArr [])])) (JStr ''a..b'') (JNum 1) None None)
     = Returns () \<and>
   fst (get (snd (set_op (new_DataBase (JObj [(''a'', JArr [])])) (JStr ''a..b'') (JNum 1)
                    None None))
          (JStr ''a..b'') None None) = Returns Undefined \<and>
   fst (get (snd (set_op (new_DataBase (JObj [(''a'', JArr [])])) (JStr ''a..b'') (JNum 1)
                    None None))
          (JStr ''a..b'') None None) \<noteq> Returns (Val (JNum 1))"
  by (simp add: eval_defs)

text \<open>
  The key \<open>__proto__\<close> is not read back either: on the empty document \<open>set("__proto__", 1)\<close>
  returns and writes the document as it was, and \<open>get("__proto__")\<close> then returns
  \<open>undefined\<close> in nested mode and \<open>Object.prototype\<close> without nesting.
\<close>

lemma set_proto_not_read_back:
  "set_op (new_DataBase (JObj [])) (JStr ''__proto__'') (JNum 1) None None =
     (Returns (), new_DataBase (JObj [])) \<and>
   set_op (new_DataBase (JObj [])) (JStr ''__proto__'') (JNum 1) (Some False) None =
     (Returns (), new_DataBase (JObj [])) \<and>
   fst (get (new_DataBase (JObj [])) (JStr ''__proto__'') None None) = Returns Undefined \<and>
   fst (get (new_DataBase (JObj [])) (JStr ''__proto__'') (Some False) None)
     = Returns ObjectPrototype"
  by (simp add: eval_defs)

text \<open>
  Claim C1, amended: \<open>set(k, v)\<close> followed by \<open>get(k)\<close> with the same nested flag and
  separator returns \<open>v\<close> whenever \<open>set\<close> returns, provided that no part of \<open>k\<close> is
  \<open>__proto__\<close> and that, in nested mode, every value \<open>set\<close> walks through on the parts of
  \<open>k\<close> is a mapping (not an array) without a key \<open>hasOwnProperty\<close> of its own and the
  last part is not \<open>hasOwnProperty\<close>, and, without nesting, the root of the document is
  a mapping. On these documents and keys every step of \<open>set\<close> is modelled: the call
  returns or throws.
\<close>

theorem set_then_get:
  assumes "readable_back st k nested sep"
  shows "fst (set_op st (JStr k) v nested sep) \<noteq> Unmodelled \<and>
         (fst (set_op st (JStr k) v nested sep) = Returns () \<longrightarrow>
          fst (get (snd (set_op st (JStr k) v nested sep)) (JStr k) nested sep)
            = Returns (Val v))"
proof (cases "nested_arg st nested")
  case True
  let ?parts = "js_split k (separator_arg st sep)"
  from assms True have mp: "mapping_path (read_file st) ?parts"
    by (simp add: readable_back_def)
  then have m: "set_path (read_file st) ?parts v \<noteq> Unmodelled"
    by (rule set_path_modelled)
  have modelled: "fst (set_op st (JStr k) v nested sep) \<noteq> Unmodelled"
    using m True
    by (cases "set_path (read_file st) ?parts v") (auto simp: set_op_def check_key_def)
  have "fst (get (snd (set_op st (JStr k) v nested sep)) (JStr k) nested sep)
          = Returns (Val v)"
    if ret: "fst (set_op st (JStr k) v nested sep) = Returns ()"
  proof -
    from ret True obtain file' where
      f: "set_path (read_file st) ?parts v = Returns file'"
      and s: "snd (set_op st (JStr k) v nested sep) = write_file st file'"
      and k: "k \<noteq> []"
      by (cases "set_path (read_file st) ?parts v")
         (auto simp: set_op_def check_key_def split: if_splits)
    from mp f have "get_path file' ?parts = Returns (Val v)"
      by (rule set_path_get_path)
    with True k s show ?thesis
      by (simp add: get_def check_key_def nested_arg_def separator_arg_def read_file_def
            write_file_def split: option.splits)
  qed
  with modelled show ?thesis by blast
next
  case False
  from assms False obtain kvs where r: "read_file st = JObj kvs" and p: "k \<noteq> ''__proto__''"
    by (cases "read_file st") (simp_all add: readable_back_def)
  from False r p have modelled: "fst (set_op st (JStr k) v nested sep) \<noteq> Unmodelled"
    by (simp add: set_op_def check_key_def)
  have "fst (get (snd (set_op st (JStr k) v nested sep)) (JStr k) nested sep)
          = Returns (Val v)"
    if ret: "fst (set_op st (JStr k) v nested sep) = Returns ()"
  proof -
    from ret False r p have k: "k \<noteq> []"
      and s: "snd (set_op st (JStr k) v nested sep)
                = write_file st (JObj (AList.update k v kvs))"
      by (auto simp: set_op_def check_key_def split: if_splits)
    with False show ?thesis
      by (simp add: get_def check_key_def nested_arg_def separator_arg_def read_file_def
            write_file_def update_conv' split: option.splits)
  qed
  with modelled show ?thesis by blast
qed

theorem set_then_get_witness:
  "readable_back (new_DataBase (JObj [(''a'', JObj [(''x'', JNum 0)])])) ''a..b..c'' None None \<and>
   fst (set_op (new_DataBase (JObj [(''a'', JObj [(''x'', JNum 0)])])) (JStr ''a..b..c'')
         (JArr [JNum 1, JNull]) None None) = Returns () \<and>
   fst (get (snd (set_op (new_DataBase (JObj [(''a'', JObj [(''x'', JNum 0)])]))
                    (JStr ''a..b..c'') (JArr [JNum 1, JNull]) None None))
          (JStr ''a..b..c'') None None) = Returns (Val (JArr [JNum 1, JNull]))"
proof -
  have h1: "fst (set_op (new_DataBase (JObj [(''a'', JObj [(''x'', JNum 0)])]))
                   (JStr ''a..b..c'') (JArr [JNum 1, JNull]) None None) = Returns ()"
    by (simp add: eval_defs)
  have h2: "readable_back (new_DataBase (JObj [(''a'', JObj [(''x'', JNum 0)])]))
              ''a..b..c'' None None"
    by (simp add: readable_back_def eval_defs)
  from set_then_get [OF h2, of "JArr [JNum 1, JNull]"] h1 h2 show ?thesis by simp
qed

subsection \<open>pull without \<open>pullAll\<close>\<close>

text \<open>
  \<open>first_index\<close> finds the first element that satisfies the test, so a value is pulled
  at its first strictly equal occurrence, and only there.
\<close>

lemma first_index_Some:
  "first_index P xs = Some i \<Longrightarrow> i < length xs \<and> P (xs ! i) \<and> (\<forall>j<i. \<not> P (xs ! j))"
proof (induction xs arbitrary: i)
  case Nil
  then show ?case by simp
next
  case (Cons x xs)
  show ?case
  proof (cases "P x")
    case True
    with Cons.prems show ?thesis by simp
  next
    case False
    with Cons.prems obtain i' where i': "first_index P xs = Some i'" "i = Suc i'"
      by auto
    from Cons.IH [OF i'(1)] False i'(2) show ?thesis
      by (auto simp: less_Suc_eq_0_disj)
  qed
qed

lemma first_index_None: "first_index P xs = None \<longleftrightarrow> (\<forall>x \<in> set xs. \<not> P x)"
  by (induction xs) auto

lemma same_as_Value: "same_as (Value v) = (\<lambda>element. strict_equals element v)"
  by (rule ext) simp

lemma same_as_Callback: "same_as (Callback f) = (\<lambda>element. False)"
  by (rule ext) simp

lemma pull_value_without_pullAll:
  "pull_array (Value v) False xs =
    (case first_index (\<lambda>element. strict_equals element v) xs of
       Some i \<Rightarrow> (True, take i xs @ drop (Suc i) xs)
     | None \<Rightarrow> (False, xs))"
  by (simp add: pull_array_def indexOf_def splice1_def same_as_Value split: option.splits)

text \<open>Whatever the callback and the array: without \<open>pullAll\<close> nothing is removed.\<close>

lemma pull_any_callback_without_pullAll:
  "pull_array (Callback f) False xs = (False, xs)"
proof -
  have "first_index (\<lambda>element. False) xs = None"
    by (simp add: first_index_None)
  then show ?thesis
    by (simp add: pull_array_def indexOf_def same_as_Callback)
qed

text \<open>
  Claim C2: with \<open>pullAll = false\<close>, \<open>pull\<close> removes the first element that the
  predicate selects when \<open>callbackOrValue\<close> is a function, or that equals
  \<open>callbackOrValue\<close> otherwise, and returns \<open>true\<close>.

  The code does not do this for a function: without \<open>pullAll\<close> it calls
  \<open>array.indexOf(callbackOrValue)\<close>, which looks for an element identical to the
  function and never calls it. On the array \<open>[5, 20]\<close> and a predicate that selects
  \<open>20\<close>, the call of the method's own example (\<open>db.pull("myArray", (element) => ...)\<close>,
  \<open>pullAll\<close> left out or \<open>false\<close>) returns \<open>false\<close> and writes nothing; the same call
  with \<open>pullAll = true\<close> removes the \<open>20\<close>.
\<close>

theorem pull_callback_without_pullAll:
  "pull (new_DataBase (JObj [(''myArray'', JArr [JNum 5, JNum 20])])) (JStr ''myArray'')
      (Callback (\<lambda>element index array. element = JNum 20)) None None None =
     (Returns False, new_DataBase (JObj [(''myArray'', JArr [JNum 5, JNum 20])])) \<and>
   pull (new_DataBase (JObj [(''myArray'', JArr [JNum 5, JNum 20])])) (JStr ''myArray'')
      (Callback (\<lambda>element index array. element = JNum 20)) (Some False) None None =
     (Returns False, new_DataBase (JObj [(''myArray'', JArr [JNum 5, JNum 20])])) \<and>
   pull (new_DataBase (JObj [(''myArray'', JArr [JNum 5, JNum 20])])) (JStr ''myArray'')
      (Callback (\<lambda>element index array. element = JNum 20)) (Some True) None None =
     (Returns True, new_DataBase (JObj [(''myArray'', JArr [JNum 5])]))"
  by (simp add: eval_defs upt_rec)

subsection \<open>add and subtract at the last part\<close>

text \<open>
  The branch without nesting, on a mapping that does not shadow \<open>hasOwnProperty\<close>: an
  absent key is set, a number is incremented, any other value throws.
\<close>

lemma add_flat_mapping:
  "map_of kvs ''hasOwnProperty'' = None \<Longrightarrow> key \<noteq> ''__proto__'' \<Longrightarrow>
   add_flat key n (JObj kvs) =
    (case map_of kvs key of
       None \<Rightarrow> Returns (JObj (AList.update key (JNum n) kvs))
     | Some (JNum m) \<Rightarrow> Returns (JObj (AList.update key (JNum (m + n)) kvs))
     | Some other \<Rightarrow> Throws (DatabaseError (NonNumericTarget key)))"
  by (auto simp: add_flat_def split: option.splits json.splits)

lemma subtract_flat_mapping:
  "map_of kvs ''hasOwnProperty'' = None \<Longrightarrow> key \<noteq> ''__proto__'' \<Longrightarrow>
   subtract_flat key n (JObj kvs) =
    (case map_of kvs key of
       None \<Rightarrow> Returns (JObj (AList.update key (JNum (- n)) kvs))
     | Some (JNum m) \<Rightarrow> Returns (JObj (AList.update key (JNum (m - n)) kvs))
     | Some other \<Rightarrow> Throws (DatabaseError (NonNumericTarget key)))"
  by (auto simp: subtract_flat_def split: option.splits json.splits)

text \<open>
  Claim C3: \<open>add\<close> and \<open>subtract\<close> set an absent terminal value to the signed argument,
  increment a number in place, and fail with \<open>NonNumericTarget\<close> on a terminal value
  that is present and not a number, identically in nested and non-nested mode.

  The two modes differ. On the document \<open>{"a": null}\<close> and the key \<open>a\<close>, the branch
  without nesting tests \<open>hasOwnProperty\<close> and throws \<open>NonNumericTarget\<close>; the nested
  branch tests \<open>!currentObject[lastPart]\<close>, takes \<open>null\<close> for absent and overwrites it.
\<close>

theorem add_falsy_terminal_modes_differ:
  "add (new_DataBase (JObj [(''a'', JNull)])) (JStr ''a'') (JNum 5) (Some True) None =
     (Returns (), new_DataBase (JObj [(''a'', JNum 5)])) \<and>
   add (new_DataBase (JObj [(''a'', JNull)])) (JStr ''a'') (JNum 5) (Some False) None =
     (Throws (DatabaseError (NonNumericTarget ''a'')), new_DataBase (JObj [(''a'', JNull)])) \<and>
   subtract (new_DataBase (JObj [(''a'', JNull)])) (JStr ''a'') (JNum 5) (Some True) None =
     (Returns (), new_DataBase (JObj [(''a'', JNum (- 5))])) \<and>
   subtract (new_DataBase (JObj [(''a'', JNull)])) (JStr ''a'') (JNum 5) (Some False) None =
     (Throws (DatabaseError (NonNumericTarget ''a'')), new_DataBase (JObj [(''a'', JNull)]))"
  by (simp add: eval_defs)

subsection \<open>Intermediate parts that hold no mapping\<close>

text \<open>The third equation of each walk, for any non-empty rest of the parts.\<close>

lemma set_path_step:
  assumes "rest \<noteq> []"
  shows "set_path cur (part # rest) v =
    bind (js_get cur part) (\<lambda>r.
      if \<not> truthy r then
        bind (js_assign cur part (JObj [])) (\<lambda>_.
        bind (set_path (JObj []) rest v) (\<lambda>child. js_assign cur part child))
      else if typeof r \<noteq> T_object
      then Throws (DatabaseError (CannotCreateProperty part (typeof r)))
      else (case r of
              Val child \<Rightarrow>
                bind (set_path child rest v) (\<lambda>child'. Returns (replace_own cur part child'))
            | _ \<Rightarrow> Unmodelled))"
proof (cases rest)
  case Nil
  with assms show ?thesis by simp
next
  case (Cons q qs)
  show ?thesis unfolding Cons by (rule set_path.simps(3))
qed

lemma walk_create_step:
  assumes "rest \<noteq> []"
  shows "walk_create terminal cur (part # rest) =
    bind (hasOwnProperty cur part) (\<lambda>h.
      if \<not> h then
        bind (js_assign cur part (JObj [])) (\<lambda>_.
        bind (walk_create terminal (JObj []) rest) (\<lambda>child. js_assign cur part child))
      else
        bind (js_get cur part) (\<lambda>r.
          if typeof r \<noteq> T_object
          then Throws (DatabaseError (CannotCreateProperty part (typeof r)))
          else (case r of
                  Val child \<Rightarrow>
                    bind (walk_create terminal child rest) (\<lambda>child'.
                    Returns (replace_own cur part child'))
                | _ \<Rightarrow> Unmodelled)))"
proof (cases rest)
  case Nil
  with assms show ?thesis by simp
next
  case (Cons q qs)
  show ?thesis unfolding Cons by (rule walk_create.simps(3))
qed

lemma standing_mapping:
  "standing cur ps = Some kvs \<Longrightarrow>
   \<exists>kvs0. cur = JObj kvs0 \<and> map_of kvs0 ''hasOwnProperty'' = None"
  by (cases "(cur, ps)" rule: standing.cases) (auto split: if_splits)

lemma js_assign_mapping:
  "part \<noteq> ''__proto__'' \<Longrightarrow>
   js_assign (JObj kvs) part = (\<lambda>c. Returns (JObj (AList.update part c kvs)))"
  by (rule ext) simp

text \<open>
  A truthy boolean, number or string under an intermediate part stops the walk of
  \<open>set\<close>; any boolean, number or string stops the walk of the other three. Induction on
  the parts that lead to it.
\<close>

lemma set_path_blocked:
  "standing root pre = Some kvs \<Longrightarrow> map_of kvs part = Some c \<Longrightarrow>
   typeof_json c \<noteq> T_object \<Longrightarrow> truthy_json c \<Longrightarrow> rest \<noteq> [] \<Longrightarrow>
   set_path root (pre @ part # rest) v =
     Throws (DatabaseError (CannotCreateProperty part (typeof_json c)))"
proof (induction pre arbitrary: root)
  case Nil
  then show ?case
    by (cases root) (auto simp: set_path_step split: if_splits)
next
  case (Cons p ps)
  from Cons.prems(1) obtain kvs0 child where
    root: "root = JObj kvs0" and p: "map_of kvs0 p = Some child" and
    ch: "standing child ps = Some kvs"
    by (cases root) (auto split: if_splits option.splits)
  from standing_mapping [OF ch] obtain kvs1 where child: "child = JObj kvs1" by blast
  have "set_path child (ps @ part # rest) v =
          Throws (DatabaseError (CannotCreateProperty part (typeof_json c)))"
    using ch Cons.prems(2-5) by (rule Cons.IH)
  with root p child show ?case
    by (simp add: set_path_step)
qed

lemma walk_create_blocked:
  "standing root pre = Some kvs \<Longrightarrow> map_of kvs part = Some c \<Longrightarrow>
   typeof_json c \<noteq> T_object \<Longrightarrow> rest \<noteq> [] \<Longrightarrow>
   walk_create terminal root (pre @ part # rest) =
     Throws (DatabaseError (CannotCreateProperty part (typeof_json c)))"
proof (induction pre arbitrary: root)
  case Nil
  then show ?case
    by (cases root) (auto simp: walk_create_step split: if_splits)
next
  case (Cons p ps)
  from Cons.prems(1) obtain kvs0 child where
    root: "root = JObj kvs0" and own: "map_of kvs0 ''hasOwnProperty'' = None" and
    p: "map_of kvs0 p = Some child" and ch: "standing child ps = Some kvs"
    by (cases root) (auto split: if_splits option.splits)
  from standing_mapping [OF ch] obtain kvs1 where child: "child = JObj kvs1" by blast
  have "walk_create terminal child (ps @ part # rest) =
          Throws (DatabaseError (CannotCreateProperty part (typeof_json c)))"
    using ch Cons.prems(2-4) by (rule Cons.IH)
  with root own p child show ?case
    by (simp add: walk_create_step)
qed

text \<open>
  A missing intermediate part: the walk goes on as in the document that holds an empty
  mapping there.
\<close>

lemma set_path_missing:
  "standing root pre = Some kvs \<Longrightarrow> map_of kvs part = None \<Longrightarrow>
   part \<notin> set (''__proto__'' # object_prototype_methods) \<Longrightarrow> rest \<noteq> [] \<Longrightarrow>
   set_path root (pre @ part # rest) v =
     set_path (put_at root (pre @ [part]) (JObj [])) (pre @ part # rest) v"
proof (induction pre arbitrary: root)
  case Nil
  then show ?case
    by (cases root)
       (auto simp: set_path_step update_conv' js_assign_mapping split: if_splits)
next
  case (Cons p ps)
  from Cons.prems(1) obtain kvs0 child where
    root: "root = JObj kvs0" and p: "map_of kvs0 p = Some child" and
    ch: "standing child ps = Some kvs"
    by (cases root) (auto split: if_splits option.splits)
  from standing_mapping [OF ch] obtain kvs1 where child: "child = JObj kvs1" by blast
  have ih: "set_path child (ps @ part # rest) v =
          set_path (put_at child (ps @ [part]) (JObj [])) (ps @ part # rest) v"
    using ch Cons.prems(2-4) by (rule Cons.IH)
  obtain kvs2 where put: "put_at child (ps @ [part]) (JObj []) = JObj kvs2"
    using child by (cases "ps @ [part]") auto
  from root p child put ih show ?case
    by (simp add: set_path_step update_conv')
qed

lemma walk_create_missing:
  "standing root pre = Some kvs \<Longrightarrow> map_of kvs part = None \<Longrightarrow>
   part \<notin> set (''__proto__'' # object_prototype_methods) \<Longrightarrow> rest \<noteq> [] \<Longrightarrow>
   walk_create terminal root (pre @ part # rest) =
     walk_create terminal (put_at root (pre @ [part]) (JObj [])) (pre @ part # rest)"
proof (induction pre arbitrary: root)
  case Nil
  then show ?case
    by (cases root)
       (auto simp: walk_create_step update_conv' object_prototype_methods_def
          js_assign_mapping split: if_splits)
next
  case (Cons p ps)
  from Cons.prems(1) obtain kvs0 child where
    root: "root = JObj kvs0" and own: "map_of kvs0 ''hasOwnProperty'' = None" and
    p: "map_of kvs0 p = Some child" and ch: "standing child ps = Some kvs"
    by (cases root) (auto split: if_splits option.splits)
  from standing_mapping [OF ch] obtain kvs1 where child: "child = JObj kvs1" by blast
  have ih: "walk_create terminal child (ps @ part # rest) =
          walk_create terminal (put_at child (ps @ [part]) (JObj [])) (ps @ part # rest)"
    using ch Cons.prems(2-4) by (rule Cons.IH)
  obtain kvs2 where put: "put_at child (ps @ [part]) (JObj []) = JObj kvs2"
    using child by (cases "ps @ [part]") auto
  from own p have "p \<noteq> ''hasOwnProperty''" by auto
  with root own p child put ih show ?case
    by (simp add: walk_create_step update_conv')
qed

lemma finish_same_effect:
  "same_effect (finish st r) (finish (st\<lparr>disk := d\<rparr>) r)"
  by (cases r) (simp_all add: same_effect_def write_file_def)

text \<open>
  Claim C4: in nested mode \<open>set\<close>, \<open>add\<close>, \<open>subtract\<close> and \<open>push\<close> fail with
  \<open>CannotCreateProperty\<close> whenever an intermediate part exists and holds a value that is
  not a mapping, and create an empty mapping where an intermediate part is missing.

  As stated the claim is false: the guard of all four loops is
  \<open>typeof currentObject[part] !== 'object'\<close>, and an array is of type object. The walk
  descends into an array as into a mapping, and an index as the next part works: on the
  document \<open>{"a": [5]}\<close> the four methods return, and \<open>set\<close>, \<open>add\<close> and \<open>subtract\<close>
  patch the element \<open>a..0\<close> while \<open>push\<close> creates \<open>a..1\<close>.
\<close>

theorem array_intermediate_counterexample:
  "set_op (new_DataBase (JObj [(''a'', JArr [JNum 5])])) (JStr ''a..0'') (JNum 9) None None =
     (Returns (), new_DataBase (JObj [(''a'', JArr [JNum 9])])) \<and>
   add (new_DataBase (JObj [(''a'', JArr [JNum 5])])) (JStr ''a..0'') (JNum 1) None None =
     (Returns (), new_DataBase (JObj [(''a'', JArr [JNum 6])])) \<and>
   subtract (new_DataBase (JObj [(''a'', JArr [JNum 5])])) (JStr ''a..0'') (JNum 1) None None =
     (Returns (), new_DataBase (JObj [(''a'', JArr [JNum 4])])) \<and>
   push (new_DataBase (JObj [(''a'', JArr [JNum 5])])) (JStr ''a..1'') (JNum 7) None None =
     (Returns (), new_DataBase (JObj [(''a'', JArr [JNum 5, JArr [JNum 7]])]))"
  by (simp add: eval_defs)

text \<open>
  The loop of \<open>set\<close> alone tests \<open>!currentObject[part]\<close> where the other three test
  \<open>hasOwnProperty\<close>: on the document \<open>{"a": 0}\<close> and the key \<open>a..b\<close>, \<open>set\<close> replaces the
  \<open>0\<close> by \<open>{"b": 1}\<close> and returns, and \<open>add\<close>, \<open>subtract\<close> and \<open>push\<close> throw
  \<open>CannotCreateProperty\<close>. The amended claim C4 below says nothing of \<open>set\<close> on a falsy
  intermediate value.
\<close>

lemma set_overwrites_falsy_intermediate:
  "set_op (new_DataBase (JObj [(''a'', JNum 0)])) (JStr ''a..b'') (JNum 1) None None =
     (Returns (), new_DataBase (JObj [(''a'', JObj [(''b'', JNum 1)])])) \<and>
   add (new_DataBase (JObj [(''a'', JNum 0)])) (JStr ''a..b'') (JNum 1) None None =
     (Throws (DatabaseError (CannotCreateProperty ''a'' T_number)),
      new_DataBase (JObj [(''a'', JNum 0)])) \<and>
   subtract (new_DataBase (JObj [(''a'', JNum 0)])) (JStr ''a..b'') (JNum 1) None None =
     (Throws (DatabaseError (CannotCreateProperty ''a'' T_number)),
      new_DataBase (JObj [(''a'', JNum 0)])) \<and>
   push (new_DataBase (JObj [(''a'', JNum 0)])) (JStr ''a..b'') (JNum 1) None None =
     (Throws (DatabaseError (CannotCreateProperty ''a'' T_number)),
      new_DataBase (JObj [(''a'', JNum 0)]))"
  by (simp add: eval_defs)

text \<open>
  Claim C4, amended: in nested mode, where the parts before an intermediate part lead
  through mappings (none with a key \<open>hasOwnProperty\<close> of its own) and the part holds a
  boolean, a number or a string, \<open>add\<close>, \<open>subtract\<close> and \<open>push\<close> fail with
  \<open>CannotCreateProperty\<close>, and so does \<open>set\<close> when that value is truthy. Where the part
  is missing (and is neither \<open>__proto__\<close> nor the name of a method of
  \<open>Object.prototype\<close>), each of the four has the same effect as on the document that
  holds an empty mapping at that part: it creates the mapping and continues in it.
\<close>

theorem intermediate_parts:
  assumes nested: "nested_arg st nested"
    and key: "k \<noteq> []" "js_split k (separator_arg st sep) = pre @ part # rest" "rest \<noteq> []"
    and stand: "standing (read_file st) pre = Some kvs"
  shows
    "(map_of kvs part = Some c \<and> typeof_json c \<noteq> T_object \<longrightarrow>
        fst (add st (JStr k) (JNum n) nested sep)
          = Throws (DatabaseError (CannotCreateProperty part (typeof_json c))) \<and>
        fst (subtract st (JStr k) (JNum n) nested sep)
          = Throws (DatabaseError (CannotCreateProperty part (typeof_json c))) \<and>
        fst (push st (JStr k) v nested sep)
          = Throws (DatabaseError (CannotCreateProperty part (typeof_json c))) \<and>
        (truthy_json c \<longrightarrow>
           fst (set_op st (JStr k) v nested sep)
             = Throws (DatabaseError (CannotCreateProperty part (typeof_json c))))) \<and>
     (map_of kvs part = None \<and> part \<notin> set (''__proto__'' # object_prototype_methods) \<longrightarrow>
        same_effect (set_op st (JStr k) v nested sep)
          (set_op (with_mapping_at st (pre @ [part])) (JStr k) v nested sep) \<and>
        same_effect (add st (JStr k) (JNum n) nested sep)
          (add (with_mapping_at st (pre @ [part])) (JStr k) (JNum n) nested sep) \<and>
        same_effect (subtract st (JStr k) (JNum n) nested sep)
          (subtract (with_mapping_at st (pre @ [part])) (JStr k) (JNum n) nested sep) \<and>
        same_effect (push st (JStr k) v nested sep)
          (push (with_mapping_at st (pre @ [part])) (JStr k) v nested sep))"
proof (intro conjI impI)
  assume c: "map_of kvs part = Some c \<and> typeof_json c \<noteq> T_object"
  then have w: "\<And>terminal. walk_create terminal (read_file st) (pre @ part # rest) =
                  Throws (DatabaseError (CannotCreateProperty part (typeof_json c)))"
    using stand key(3) by (simp add: walk_create_blocked)
  from w nested key show "fst (add st (JStr k) (JNum n) nested sep)
          = Throws (DatabaseError (CannotCreateProperty part (typeof_json c)))"
    by (simp add: add_def check_key_def check_number_def)
  from w nested key show "fst (subtract st (JStr k) (JNum n) nested sep)
          = Throws (DatabaseError (CannotCreateProperty part (typeof_json c)))"
    by (simp add: subtract_def check_key_def check_number_def)
  from w nested key show "fst (push st (JStr k) v nested sep)
          = Throws (DatabaseError (CannotCreateProperty part (typeof_json c)))"
    by (simp add: push_def check_key_def)
  assume "truthy_json c"
  with c stand key(3) have "set_path (read_file st) (pre @ part # rest) v =
      Throws (DatabaseError (CannotCreateProperty part (typeof_json c)))"
    by (simp add: set_path_blocked)
  with nested key show "fst (set_op st (JStr k) v nested sep)
          = Throws (DatabaseError (CannotCreateProperty part (typeof_json c)))"
    by (simp add: set_op_def check_key_def)
next
  let ?st' = "with_mapping_at st (pre @ [part])"
  assume m: "map_of kvs part = None \<and> part \<notin> set (''__proto__'' # object_prototype_methods)"
  have args: "nested_arg ?st' nested = nested_arg st nested"
    "separator_arg ?st' sep = separator_arg st sep"
    "read_file ?st' = put_at (read_file st) (pre @ [part]) (JObj [])"
    by (simp_all add: with_mapping_at_def nested_arg_def separator_arg_def read_file_def
          split: option.splits)
  from m stand key(3) have
    s: "set_path (read_file st) (pre @ part # rest) v =
        set_path (read_file ?st') (pre @ part # rest) v"
    and w: "\<And>terminal. walk_create terminal (read_file st) (pre @ part # rest) =
        walk_create terminal (read_file ?st') (pre @ part # rest)"
    unfolding args by (simp_all add: set_path_missing walk_create_missing)
  have fin: "\<And>r. same_effect (finish st r) (finish ?st' r)"
    unfolding with_mapping_at_def by (rule finish_same_effect)
  from s nested key fin show "same_effect (set_op st (JStr k) v nested sep)
          (set_op ?st' (JStr k) v nested sep)"
    by (simp add: set_op_def check_key_def args)
  from w nested key fin show "same_effect (add st (JStr k) (JNum n) nested sep)
          (add ?st' (JStr k) (JNum n) nested sep)"
    by (simp add: add_def check_key_def check_number_def args)
  from w nested key fin show "same_effect (subtract st (JStr k) (JNum n) nested sep)
          (subtract ?st' (JStr k) (JNum n) nested sep)"
    by (simp add: subtract_def check_key_def check_number_def args)
  from w nested key fin show "same_effect (push st (JStr k) v nested sep)
          (push ?st' (JStr k) v nested sep)"
    by (simp add: push_def check_key_def args)
qed

theorem intermediate_parts_witness:
  "fst (add (new_DataBase (JObj [(''a'', JObj [(''n'', JNum 0)])])) (JStr ''a..n..x'') (JNum 1)
          None None) = Throws (DatabaseError (CannotCreateProperty ''n'' T_number)) \<and>
   fst (push (new_DataBase (JObj [(''a'', JObj [(''n'', JNum 0)])])) (JStr ''a..n..x'') JNull
          None None) = Throws (DatabaseError (CannotCreateProperty ''n'' T_number)) \<and>
   same_effect
     (set_op (new_DataBase (JObj [(''a'', JObj [(''n'', JNum 0)])])) (JStr ''a..m..x'') JNull
        None None)
     (set_op (new_DataBase (JObj [(''a'', JObj [(''n'', JNum 0), (''m'', JObj [])])]))
        (JStr ''a..m..x'') JNull None None)"
proof -
  let ?st = "new_DataBase (JObj [(''a'', JObj [(''n'', JNum 0)])])"
  have n: "nested_arg ?st None" by (simp add: eval_defs)
  have s: "standing (read_file ?st) [''a''] = Some [(''n'', JNum 0)]"
    by (simp add: eval_defs)
  have k1: "js_split ''a..n..x'' (separator_arg ?st None) = [''a''] @ ''n'' # [''x'']"
    by (simp add: eval_defs)
  have k2: "js_split ''a..m..x'' (separator_arg ?st None) = [''a''] @ ''m'' # [''x'']"
    by (simp add: eval_defs)
  have st': "with_mapping_at ?st ([''a''] @ [''m''])
               = new_DataBase (JObj [(''a'', JObj [(''n'', JNum 0), (''m'', JObj [])])])"
    by (simp add: with_mapping_at_def eval_defs)
  from intermediate_parts [OF n _ k1 _ s, of "JNum 0" 1 JNull]
       intermediate_parts [OF n _ k2 _ s, of "JNum 0" 1 JNull] st'
  show ?thesis
    by (simp add: object_prototype_methods_def)
qed

subsection \<open>get and fetch below null\<close>

text \<open>
  On a path through mappings the walk of \<open>get\<close> returns: the value under the last part,
  or \<open>undefined\<close> where the last part or a part before it is missing.
\<close>

lemma get_path_mapping:
  "standing root pre = Some kvs \<Longrightarrow>
   get_path root (pre @ [lastPart]) =
     Returns (case map_of kvs lastPart of Some v \<Rightarrow> Val v | None \<Rightarrow> Undefined)"
proof (induction pre arbitrary: root)
  case Nil
  then show ?case
    by (cases root) (auto split: if_splits option.splits)
next
  case (Cons p ps)
  from Cons.prems obtain kvs0 child where
    root: "root = JObj kvs0" and own: "map_of kvs0 ''hasOwnProperty'' = None" and
    p: "map_of kvs0 p = Some child" and ch: "standing child ps = Some kvs"
    by (cases root) (auto split: if_splits option.splits)
  from Cons.IH [OF ch] root own p show ?case
    by simp
qed

lemma get_path_missing_intermediate:
  "standing root pre = Some kvs \<Longrightarrow> map_of kvs part = None \<Longrightarrow>
   get_path root (pre @ part # rest) = Returns Undefined"
proof (induction pre arbitrary: root)
  case Nil
  then show ?case
    by (cases root) (auto split: if_splits option.splits)
next
  case (Cons p ps)
  from Cons.prems(1) obtain kvs0 child where
    root: "root = JObj kvs0" and own: "map_of kvs0 ''hasOwnProperty'' = None" and
    p: "map_of kvs0 p = Some child" and ch: "standing child ps = Some kvs"
    by (cases root) (auto split: if_splits option.splits)
  from Cons.IH [OF ch Cons.prems(2)] root own p show ?case
    by simp
qed

text \<open>The walk of \<open>get\<close> throws wherever it stands on \<open>null\<close> with a part left.\<close>

lemma get_path_below_null: "get_path JNull (part # rest) = Throws TypeError"
  by simp

text \<open>The branch without nesting returns on every document whose root is a mapping.\<close>

lemma get_flat_returns:
  "k \<noteq> [] \<Longrightarrow> read_file st = JObj kvs \<Longrightarrow>
   \<exists>r. fst (get st (JStr k) (Some False) sep) = Returns r"
  by (simp add: get_def check_key_def nested_arg_def split: option.splits)

text \<open>
  Claim C5: \<open>get\<close> and \<open>fetch\<close> never throw on a valid key, whatever the intermediate
  values are, \<open>null\<close> included.

  They throw below \<open>null\<close>: on the document \<open>{"a": null}\<close> and the key \<open>a..b\<close> the loop
  finds the own property \<open>a\<close>, moves to \<open>null\<close> and calls \<open>null.hasOwnProperty("b")\<close>,
  a \<open>TypeError\<close>.
\<close>

theorem get_null_intermediate_throws:
  "fst (get (new_DataBase (JObj [(''a'', JNull)])) (JStr ''a..b'') None None)
     = Throws TypeError \<and>
   fst (fetch (new_DataBase (JObj [(''a'', JNull)])) (JStr ''a..b'') None None)
     = Throws TypeError"
  by (simp add: eval_defs)

subsection \<open>has and get\<close>

text \<open>
  Claim C6: \<open>has(key)\<close> returns \<open>true\<close> if and only if \<open>get(key)\<close>, with the same nested
  flag and separator, returns a truthy value; it returns \<open>false\<close> if and only if \<open>get\<close>
  returns a falsy one, in particular when \<open>get\<close> returns \<open>0\<close>, \<open>""\<close>, \<open>false\<close>,
  \<open>null\<close> or \<open>undefined\<close>.
\<close>

theorem has_iff_get_truthy:
  "(fst (has st key nested sep) = Returns True \<longleftrightarrow>
      (\<exists>v. fst (get st key nested sep) = Returns v \<and> truthy v)) \<and>
   (fst (has st key nested sep) = Returns False \<longleftrightarrow>
      (\<exists>v. fst (get st key nested sep) = Returns v \<and> \<not> truthy v)) \<and>
   (fst (get st key nested sep) = Returns v \<and>
    v \<in> {Val (JNum 0), Val (JStr ''''), Val (JBool False), Val JNull, Undefined}
      \<longrightarrow> fst (has st key nested sep) = Returns False)"
  unfolding has_get by (cases "fst (get st key nested sep)") auto

theorem has_iff_get_truthy_witness:
  "fst (get (new_DataBase (JObj [(''n'', JNum 0)])) (JStr ''n'') None None)
     = Returns (Val (JNum 0)) \<and>
   fst (has (new_DataBase (JObj [(''n'', JNum 0)])) (JStr ''n'') None None) = Returns False"
proof -
  have g: "fst (get (new_DataBase (JObj [(''n'', JNum 0)])) (JStr ''n'') None None)
             = Returns (Val (JNum 0))"
    by (simp add: eval_defs)
  with has_iff_get_truthy
         [of "new_DataBase (JObj [(''n'', JNum 0)])" "JStr ''n''" None None "Val (JNum 0)"]
  show ?thesis by simp
qed

subsection \<open>delete below null\<close>

lemma delete_path_step:
  assumes "rest \<noteq> []"
  shows "delete_path cur (part # rest) =
    bind (hasOwnProperty cur part) (\<lambda>h.
      if \<not> h then Returns None
      else (case own_value cur part of
              Some child \<Rightarrow>
                bind (delete_path child rest) (\<lambda>r.
                Returns (map_option (replace_own cur part) r))
            | None \<Rightarrow> Unmodelled))"
proof (cases rest)
  case Nil
  with assms show ?thesis by simp
next
  case (Cons q qs)
  show ?thesis unfolding Cons by (rule delete_path.simps(3))
qed

text \<open>
  On a path through mappings the walk of \<open>delete\<close> does what the claim says: it removes
  the entry under the last part when there is one, and returns \<open>false\<close> (here \<open>None\<close>)
  when the last part or a part before it is missing.
\<close>

lemma delete_path_mapping:
  "standing root pre = Some kvs \<Longrightarrow>
   delete_path root (pre @ [lastPart]) =
     Returns (case map_of kvs lastPart of
                Some v \<Rightarrow> Some (put_at root pre (JObj (AList.delete lastPart kvs)))
              | None \<Rightarrow> None)"
proof (induction pre arbitrary: root)
  case Nil
  then show ?case
    by (cases root) (auto split: if_splits option.splits)
next
  case (Cons p ps)
  from Cons.prems obtain kvs0 child where
    root: "root = JObj kvs0" and own: "map_of kvs0 ''hasOwnProperty'' = None" and
    p: "map_of kvs0 p = Some child" and ch: "standing child ps = Some kvs"
    by (cases root) (auto split: if_splits option.splits)
  from Cons.IH [OF ch] root own p show ?case
    by (simp add: delete_path_step split: option.splits)
qed

lemma delete_path_missing_intermediate:
  "standing root pre = Some kvs \<Longrightarrow> map_of kvs part = None \<Longrightarrow> rest \<noteq> [] \<Longrightarrow>
   delete_path root (pre @ part # rest) = Returns None"
proof (induction pre arbitrary: root)
  case Nil
  then show ?case
    by (cases root) (auto simp: delete_path_step split: if_splits option.splits)
next
  case (Cons p ps)
  from Cons.prems(1) obtain kvs0 child where
    root: "root = JObj kvs0" and own: "map_of kvs0 ''hasOwnProperty'' = None" and
    p: "map_of kvs0 p = Some child" and ch: "standing child ps = Some kvs"
    by (cases root) (auto split: if_splits option.splits)
  from Cons.IH [OF ch Cons.prems(2,3)] root own p show ?case
    by (simp add: delete_path_step)
qed

text \<open>The walk of \<open>delete\<close> throws wherever it stands on \<open>null\<close> with a part left.\<close>

lemma delete_path_below_null: "delete_path JNull (part # rest) = Throws TypeError"
  by (cases rest) simp_all

text \<open>
  Claim C7: \<open>delete(key)\<close> returns \<open>false\<close> and writes nothing when the terminal entry is
  absent, and removes the entry, writes and returns \<open>true\<close> when it is present.

  Where the part before the last holds \<open>null\<close> the entry is absent and \<open>delete\<close> does
  not return \<open>false\<close>: on the document \<open>{"a": null}\<close> and the key \<open>a..b\<close> it calls
  \<open>null.hasOwnProperty("b")\<close> and throws a \<open>TypeError\<close>. The file is left as it is.
\<close>

theorem delete_null_intermediate_throws:
  "delete (new_DataBase (JObj [(''a'', JNull)])) (JStr ''a..b'') None None =
     (Throws TypeError, new_DataBase (JObj [(''a'', JNull)]))"
  by (simp add: eval_defs)

subsection \<open>The defaults of the instance\<close>

text \<open>
  Claim C8: a call, with or without overrides of the nested flag and the separator,
  leaves the defaults of the instance as they were: the fields are unchanged, a later
  call without overrides resolves to the same flag and separator, and it behaves as
  the original instance does on the file as it now is.
\<close>

theorem overrides_keep_defaults:
  "nestedEnabled (snd (run st c)) = nestedEnabled st \<and>
   separator (snd (run st c)) = separator st \<and>
   fileName (snd (run st c)) = fileName st \<and>
   nested_arg (snd (run st c)) None = nested_arg st None \<and>
   separator_arg (snd (run st c)) None = separator_arg st None \<and>
   run (snd (run st c)) c' = run (st\<lparr>disk := disk (snd (run st c))\<rparr>) c'"
proof -
  have eq: "snd (run st c) = st\<lparr>disk := disk (snd (run st c))\<rparr>"
    by (rule run_config)
  have "nestedEnabled (snd (run st c)) = nestedEnabled (st\<lparr>disk := disk (snd (run st c))\<rparr>)"
    using eq by simp
  moreover
  have "separator (snd (run st c)) = separator (st\<lparr>disk := disk (snd (run st c))\<rparr>)"
    using eq by simp
  moreover
  have "fileName (snd (run st c)) = fileName (st\<lparr>disk := disk (snd (run st c))\<rparr>)"
    using eq by simp
  moreover
  have "run (snd (run st c)) c' = run (st\<lparr>disk := disk (snd (run st c))\<rparr>) c'"
    using eq by simp
  ultimately show ?thesis
    by (simp add: nested_arg_def separator_arg_def)
qed

theorem overrides_keep_defaults_witness:
  "nestedEnabled (snd (run (new_DataBase (JObj []))
                     (Set (JStr ''a/b'') (JNum 1) (Some False) (Some ''/'')))) = True \<and>
   separator (snd (run (new_DataBase (JObj []))
                 (Set (JStr ''a/b'') (JNum 1) (Some False) (Some ''/'')))) = ''..''"
  using overrides_keep_defaults
          [of "new_DataBase (JObj [])" "Set (JStr ''a/b'') (JNum 1) (Some False) (Some ''/'')"]
  by (simp add: new_DataBase_def)

subsection \<open>A call that throws writes nothing\<close>

text \<open>
  Claim C9: when a call of \<open>set\<close>, \<open>get\<close>, \<open>fetch\<close>, \<open>delete\<close>, \<open>has\<close>, \<open>add\<close>,
  \<open>subtract\<close>, \<open>push\<close> or \<open>pull\<close> fails with a \<open>DatabaseError\<close>, the file is unchanged.
  The theorem holds for every error the call throws, a \<open>TypeError\<close> or \<open>RangeError\<close>
  of the runtime as well.
\<close>

theorem throws_leaves_file:
  "fst (run st c) = Throws e \<Longrightarrow> disk (snd (run st c)) = disk st"
proof -
  assume "fst (run st c) = Throws e"
  then have "snd (run st c) = st"
    by (cases c)
       (auto simp: lift_fst lift_snd get_frame fetch_frame has_frame all_frame reset_def
          set_op_def add_def subtract_def push_def delete_def pull_def
          dest!: bind_throws intro: finish_throws finish_delete_throws finish_pull_throws)
  then show ?thesis by simp
qed

theorem throws_leaves_file_witness:
  "fst (run (new_DataBase (JObj [(''a'', JNum 1)])) (Add (JStr ''a..b'') (JNum 2) None None))
     = Throws (DatabaseError (CannotCreateProperty ''a'' T_number)) \<and>
   disk (snd (run (new_DataBase (JObj [(''a'', JNum 1)]))
                (Add (JStr ''a..b'') (JNum 2) None None)))
     = Content (JObj [(''a'', JNum 1)])"
proof -
  have t: "fst (run (new_DataBase (JObj [(''a'', JNum 1)]))
                  (Add (JStr ''a..b'') (JNum 2) None None))
             = Throws (DatabaseError (CannotCreateProperty ''a'' T_number))"
    by (simp add: eval_defs)
  from throws_leaves_file [OF t] t show ?thesis
    by (simp add: new_DataBase_def)
qed

subsection \<open>The reading methods write nothing\<close>

text \<open>
  Claim C10: \<open>get\<close>, \<open>fetch\<close>, \<open>has\<close> and \<open>all\<close> never write: on every store and every
  argument, whether they return or throw, the file after the call is the file before
  it (and so is the rest of the store).
\<close>

theorem readers_write_nothing:
  "disk (snd (get st key nested sep)) = disk st \<and>
   disk (snd (fetch st key nested sep)) = disk st \<and>
   disk (snd (has st key nested sep)) = disk st \<and>
   disk (snd (all st)) = disk st \<and>
   snd (get st key nested sep) = st \<and>
   snd (fetch st key nested sep) = st \<and>
   snd (has st key nested sep) = st \<and>
   snd (all st) = st"
  by (simp add: get_frame fetch_frame has_frame all_frame)

theorem readers_write_nothing_witness:
  "disk (snd (get (new_DataBase (JObj [(''a'', JNull)])) (JStr ''a..b'') None None))
     = Content (JObj [(''a'', JNull)]) \<and>
   disk (snd (has (new_DataBase (JObj [(''a'', JNull)])) (JStr []) None None))
     = Content (JObj [(''a'', JNull)])"
  using readers_write_nothing [of "new_DataBase (JObj [(''a'', JNull)])" "JStr ''a..b''" None None]
        readers_write_nothing [of "new_DataBase (JObj [(''a'', JNull)])" "JStr []" None None]
  by (simp add: new_DataBase_def)

end
